theory Spec2Isabelle
  imports Complex_Main
begin

section \<open>Numbers\<close>

text \<open>
  The class computes with JavaScript numbers.  A number is modelled as an exact
  rational or as \<open>NaN\<close> (what \<open>isNaN\<close> answers true on); rounding of IEEE doubles,
  infinities and negative zero are not part of the model.  The operators below follow
  the language: arithmetic with \<open>NaN\<close> gives \<open>NaN\<close>, every comparison with \<open>NaN\<close> is
  false, \<open>%\<close> truncates towards zero (the result has the sign of the dividend) and is
  \<open>NaN\<close> on a zero divisor.  \<open>/\<close> on a zero divisor would be an infinity; the class
  guards each of its divisions with \<open>_validateDivisionByZero\<close>, and the model gives
  \<open>NaN\<close> there.
\<close>

datatype number = NaN | Num rat

definition truncate_rat :: "rat \<Rightarrow> int" where
  "truncate_rat q = (if 0 \<le> q then \<lfloor>q\<rfloor> else \<lceil>q\<rceil>)"

instantiation number :: "{plus, minus, times, inverse, modulo, ord}"
begin

fun plus_number :: "number \<Rightarrow> number \<Rightarrow> number" where
  "plus_number (Num a) (Num b) = Num (a + b)"
| "plus_number _ _ = NaN"

fun minus_number :: "number \<Rightarrow> number \<Rightarrow> number" where
  "minus_number (Num a) (Num b) = Num (a - b)"
| "minus_number _ _ = NaN"

fun times_number :: "number \<Rightarrow> number \<Rightarrow> number" where
  "times_number (Num a) (Num b) = Num (a * b)"
| "times_number _ _ = NaN"

fun divide_number :: "number \<Rightarrow> number \<Rightarrow> number" where
  "divide_number (Num a) (Num b) = (if b = 0 then NaN else Num (a / b))"
| "divide_number _ _ = NaN"

definition inverse_number :: "number \<Rightarrow> number" where
  "inverse_number n = divide (Num 1) n"

fun modulo_number :: "number \<Rightarrow> number \<Rightarrow> number" where
  "modulo_number (Num a) (Num b) =
     (if b = 0 then NaN else Num (a - b * of_int (truncate_rat (a / b))))"
| "modulo_number _ _ = NaN"

fun less_eq_number :: "number \<Rightarrow> number \<Rightarrow> bool" where
  "less_eq_number (Num a) (Num b) = (a \<le> b)"
| "less_eq_number _ _ = False"

fun less_number :: "number \<Rightarrow> number \<Rightarrow> bool" where
  "less_number (Num a) (Num b) = (a < b)"
| "less_number _ _ = False"

instance ..

end

definition isNaN :: "number \<Rightarrow> bool" where
  "isNaN n = (n = NaN)"

text \<open>\<open>!n\<close> on a number: true on \<open>0\<close> and on \<open>NaN\<close>.\<close>

definition js_not :: "number \<Rightarrow> bool" where
  "js_not n = (n = Num 0 \<or> n = NaN)"

section \<open>Interfaces\<close>

record ISquareSize =
  width :: number
  height :: number

text \<open>\<open>ILayoutCoords\<close>, fields \<open>x\<close> and \<open>y\<close>.\<close>

record ILayoutCoords =
  coord_x :: number
  coord_y :: number

text \<open>\<open>IRectPlotConfig\<close>, fields \<open>x\<close>, \<open>y\<close>, \<open>width\<close> and \<open>height\<close>.\<close>

record IRectPlotConfig =
  rect_x :: number
  rect_y :: number
  rect_width :: number
  rect_height :: number

text \<open>\<open>IMatrixGrid\<close>; its optional \<open>container\<close> is never set by the class.\<close>

record IMatrixGrid =
  row :: number
  column :: number

text \<open>The \<open>grid\<close> of a placed rectangle holds the two loop counters.\<close>

record GridPosition =
  pos_row :: nat
  pos_column :: nat

record IRectMatrixResult =
  inner :: IRectPlotConfig
  outer :: IRectPlotConfig
  grid :: GridPosition

text \<open>
  \<open>IPaperLayoutSizing\<close> is a dictionary of sizes; \<open>calculate\<close> fills the four keys
  \<open>source\<close>, \<open>outerSize\<close>, \<open>innerSize\<close> and \<open>marginSize\<close>, the only ones read.
\<close>

record IPaperLayoutSizing =
  source :: ISquareSize
  outerSize :: ISquareSize
  innerSize :: ISquareSize
  marginSize :: ISquareSize

text \<open>\<open>ILayoutResult\<close>: the key \<open>remain\<close> may be absent.\<close>

record ILayoutResult =
  main :: "IRectMatrixResult list"
  remain :: "IRectMatrixResult list option"

text \<open>What \<open>calculate\<close> returns: \<open>ILayoutResult & { total: number }\<close>.\<close>

record ILayoutTotal = ILayoutResult +
  total :: nat

text \<open>The object \<open>{ grid, start }\<close> that \<open>_calculateRemain\<close> returns.\<close>

record Remainer =
  remain_grid :: IMatrixGrid
  remain_start :: ILayoutCoords

text \<open>
  The private fields of an instance that the calculation reads (\<open>_config\<close> and
  \<open>_Element\<close> belong to the drawing methods).
\<close>

record CalculatorLayoutClass =
  this_source :: ISquareSize
  this_target :: ISquareSize
  this_margin :: ISquareSize
  this_useInline :: bool

text \<open>One constructor for each \<open>throw\<close> of the calculation and its validation.\<close>

datatype error =
    IncorrectInputValue       \<comment> \<open>Incorrect input value! The input must contain a number greater than 0.\<close>
  | TargetNotPositive         \<comment> \<open>Target width and height must be positive values.\<close>
  | TargetTooLarge            \<comment> \<open>Target size is too large for the source with margin.\<close>
  | SourceNotProvided         \<comment> \<open>Please provide source width and height.\<close>
  | SourceNotPositive         \<comment> \<open>Source width and height must be positive values.\<close>
  | MarginNegative            \<comment> \<open>Margin width and height must be non-negative values.\<close>
  | MarginTooLarge            \<comment> \<open>Margin values are too large\<close>
  | RectMatrixArrayEmpty      \<comment> \<open>rectMatrixArray is empty or undefined or not an array\<close>
  | RectMatrixRowEmpty        \<comment> \<open>rectMatrixArray is empty\<close>
  | GridRowNotPositive        \<comment> \<open>the number of rows in grid cannot be zero or negative number\<close>
  | GridColumnNotPositive     \<comment> \<open>the number of columns in grid cannot be zero or negative number\<close>
  | DivisionByZero            \<comment> \<open>Division by zero\<close>
  | NegativeRemainX           \<comment> \<open>there is a negative remainX\<close>
  | NegativeRemainY           \<comment> \<open>there is a negative remainY\<close>
  | InvalidArrayLength        \<comment> \<open>RangeError: Invalid array length, thrown by \<open>Array(n)\<close>\<close>

section \<open>Exceptions\<close>

text \<open>
  A method that may throw returns \<open>Inl e\<close> for the exception \<open>e\<close> and \<open>Inr v\<close> for
  the value \<open>v\<close>.  A validation method returns nothing: it is \<open>Some e\<close> where it throws
  \<open>e\<close> and \<open>None\<close> where it passes.  \<open>check\<close> runs a validation before the rest of a
  method, \<open>and_then\<close> hands the value of a call to the rest of a method; both let an
  exception through.
\<close>

fun check :: "error option \<Rightarrow> error + 'a \<Rightarrow> error + 'a" where
  "check (Some e) rest = Inl e"
| "check None rest = rest"

fun and_then :: "error + 'a \<Rightarrow> ('a \<Rightarrow> error + 'b) \<Rightarrow> error + 'b" where
  "and_then (Inl e) rest = Inl e"
| "and_then (Inr v) rest = rest v"

section \<open>Validation methods\<close>

definition validateSource :: "ISquareSize \<Rightarrow> error option" where
  "validateSource src =
     (if isNaN (width src) \<or> isNaN (height src) then Some SourceNotProvided
      else if width src \<le> Num 0 \<or> height src \<le> Num 0 then Some SourceNotPositive
      else None)"

text \<open>
  The first test of \<open>_validateTarget\<close>, \<open>!source && !target\<close>, is on the two objects;
  both are always given here.
\<close>

definition validateTarget :: "ISquareSize \<Rightarrow> ISquareSize \<Rightarrow> ISquareSize \<Rightarrow> error option" where
  "validateTarget tgt src mar =
     (if isNaN (width src) \<or> isNaN (height src) \<or> isNaN (width tgt) \<or> isNaN (height tgt)
      then Some IncorrectInputValue
      else if width tgt \<le> Num 0 \<or> height tgt \<le> Num 0 then Some TargetNotPositive
      else if width tgt + Num 2 * width mar > width src
            \<or> height tgt + Num 2 * height mar > height src
      then Some TargetTooLarge
      else None)"

definition validateMargin :: "ISquareSize \<Rightarrow> ISquareSize \<Rightarrow> ISquareSize \<Rightarrow> error option" where
  "validateMargin mar src tgt =
     (if width mar < Num 0 \<or> height mar < Num 0 then Some MarginNegative
      else if width tgt + Num 2 * width mar > width src
            \<or> height tgt + Num 2 * height mar > height src
      then Some MarginTooLarge
      else None)"

definition validateRectMatrixArray :: "'a list list \<Rightarrow> error option" where
  "validateRectMatrixArray rectMatrixArray =
     (if length rectMatrixArray = 0 then Some RectMatrixArrayEmpty
      else if length (rectMatrixArray ! 0) = 0 then Some RectMatrixRowEmpty
      else None)"

definition validateGrid :: "IMatrixGrid \<Rightarrow> error option" where
  "validateGrid g =
     (if row g \<le> Num 0 then Some GridRowNotPositive
      else if column g \<le> Num 0 then Some GridColumnNotPositive
      else None)"

definition validateDivisionByZero :: "number \<Rightarrow> error option" where
  "validateDivisionByZero dividend = (if dividend = Num 0 then Some DivisionByZero else None)"

definition validateRemainXY :: "number \<Rightarrow> number \<Rightarrow> error option" where
  "validateRemainXY remainX remainY =
     (if remainX < Num 0 then Some NegativeRemainX
      else if remainY < Num 0 then Some NegativeRemainY
      else None)"

section \<open>The constructor\<close>

text \<open>
  The constructor validates the target, the source and the margin, in this order, and
  replaces a margin of which both dimensions are falsy by \<open>{ width: 0, height: 0 }\<close>.
  The defaults of its last two parameters (no margin, inline) are left to the caller.
\<close>

definition new_CalculatorLayoutClass ::
  "ISquareSize \<Rightarrow> ISquareSize \<Rightarrow> ISquareSize \<Rightarrow> bool \<Rightarrow> error + CalculatorLayoutClass" where
  "new_CalculatorLayoutClass src tgt mar useInline =
     check (validateTarget tgt src mar)
    (check (validateSource src)
    (check (validateMargin mar src tgt)
    (Inr \<lparr>this_source = src, this_target = tgt,
          this_margin = (if js_not (width mar) \<and> js_not (height mar)
                         then \<lparr>width = Num 0, height = Num 0\<rparr> else mar),
          this_useInline = useInline\<rparr>)))"

section \<open>Grid fitting\<close>

definition inlineCut :: "ISquareSize \<Rightarrow> ISquareSize \<Rightarrow> ISquareSize \<Rightarrow> error + IMatrixGrid" where
  "inlineCut src tgt mar =
     check (validateDivisionByZero (width tgt + Num 2 * width mar))
    (check (validateDivisionByZero (height tgt + Num 2 * height mar))
    (let input = \<lparr>width = width tgt + Num 2 * width mar,
                  height = height tgt + Num 2 * height mar\<rparr>;
         remainX = width src mod width input;
         remainY = height src mod height input;
         column = (width src - remainX) / width input;
         row = (height src - remainY) / height input
     in Inr \<lparr>row = row, column = column\<rparr>))"

definition crossCut :: "ISquareSize \<Rightarrow> ISquareSize \<Rightarrow> ISquareSize \<Rightarrow> error + IMatrixGrid" where
  "crossCut src tgt mar =
     check (validateDivisionByZero (width tgt + Num 2 * width mar))
    (check (validateDivisionByZero (height tgt + Num 2 * height mar))
    (let input = \<lparr>width = width tgt + Num 2 * width mar,
                  height = height tgt + Num 2 * height mar\<rparr>;
         remainX = width src mod height input;
         remainY = height src mod width input;
         column = (width src - remainX) / height input;
         row = (height src - remainY) / width input
     in Inr \<lparr>row = row, column = column\<rparr>))"

section \<open>Remainder\<close>

definition calculateRemain ::
  "ISquareSize \<Rightarrow> ISquareSize \<Rightarrow> ISquareSize \<Rightarrow> ISquareSize \<Rightarrow> error + Remainer option" where
  "calculateRemain src container tgt mar =
     (let remainX = width src - width container;
          remainContainerX = \<lparr>width = remainX, height = height src\<rparr>;
          remainY = height src - height container;
          remainContainerY = \<lparr>width = width src, height = remainY\<rparr>
      in check (validateRemainXY remainX remainY)
        (let condition1 = (remainY \<ge> width tgt);
             condition2 = (remainX \<ge> height tgt)
         in if condition2 then
              and_then (crossCut remainContainerX tgt mar) (\<lambda>g.
                Inr (Some \<lparr>remain_grid = g,
                           remain_start = \<lparr>coord_x = width container, coord_y = Num 0\<rparr>\<rparr>))
            else if condition1 then
              and_then (crossCut remainContainerY tgt mar) (\<lambda>g.
                Inr (Some \<lparr>remain_grid = g,
                           remain_start = \<lparr>coord_x = Num 0, coord_y = height container\<rparr>\<rparr>))
            else Inr None))"

section \<open>Placing the rectangles\<close>

text \<open>The body of the two nested loops of \<open>_buildRectMatrix\<close>, for the cell \<open>(r, c)\<close>.\<close>

definition placeRect ::
  "ISquareSize \<Rightarrow> ISquareSize \<Rightarrow> ISquareSize \<Rightarrow> ILayoutCoords option \<Rightarrow> nat \<Rightarrow> nat
     \<Rightarrow> IRectMatrixResult" where
  "placeRect outerSz innerSz marginSz start r c =
     (let g = \<lparr>pos_row = r, pos_column = c\<rparr>;
          out = \<lparr>rect_x = (case start of Some s \<Rightarrow> coord_x s | None \<Rightarrow> Num 0)
                            + Num (of_nat c) * width outerSz,
                 rect_y = (case start of Some s \<Rightarrow> coord_y s | None \<Rightarrow> Num 0)
                            + Num (of_nat r) * height outerSz,
                 rect_width = width outerSz,
                 rect_height = height outerSz\<rparr>;
          inn = \<lparr>rect_x = rect_x out + width marginSz,
                 rect_y = rect_y out + height marginSz,
                 rect_width = width innerSz,
                 rect_height = height innerSz\<rparr>
      in \<lparr>inner = inn, outer = out, grid = g\<rparr>)"

text \<open>\<open>for (let c = 0; c < rectMatrixArray[r].length; c++)\<close>, pushing to \<open>results\<close>.\<close>

function for_c ::
  "ISquareSize \<Rightarrow> ISquareSize \<Rightarrow> ISquareSize \<Rightarrow> ILayoutCoords option \<Rightarrow> 'a list list
     \<Rightarrow> nat \<Rightarrow> nat \<Rightarrow> IRectMatrixResult list \<Rightarrow> IRectMatrixResult list" where
  "for_c outerSz innerSz marginSz start rectMatrixArray r c results =
     (if c < length (rectMatrixArray ! r)
      then for_c outerSz innerSz marginSz start rectMatrixArray r (c + 1)
             (results @ [placeRect outerSz innerSz marginSz start r c])
      else results)"
  by pat_completeness auto
termination
  by (relation "measure (\<lambda>(outerSz, innerSz, marginSz, start, rectMatrixArray, r, c, results).
                   length (rectMatrixArray ! r) - c)") auto

text \<open>\<open>for (let r = 0; r < rectMatrixArray.length; r++)\<close>.\<close>

function for_r ::
  "ISquareSize \<Rightarrow> ISquareSize \<Rightarrow> ISquareSize \<Rightarrow> ILayoutCoords option \<Rightarrow> 'a list list
     \<Rightarrow> nat \<Rightarrow> IRectMatrixResult list \<Rightarrow> IRectMatrixResult list" where
  "for_r outerSz innerSz marginSz start rectMatrixArray r results =
     (if r < length rectMatrixArray
      then for_r outerSz innerSz marginSz start rectMatrixArray (r + 1)
             (for_c outerSz innerSz marginSz start rectMatrixArray r 0 results)
      else results)"
  by pat_completeness auto
termination
  by (relation "measure (\<lambda>(outerSz, innerSz, marginSz, start, rectMatrixArray, r, results).
                   length rectMatrixArray - r)") auto

definition buildRectMatrix ::
  "'a list list \<Rightarrow> IPaperLayoutSizing \<Rightarrow> bool \<Rightarrow> ILayoutCoords option
     \<Rightarrow> error + IRectMatrixResult list" where
  "buildRectMatrix rectMatrixArray sizing reverse start =
     check (validateRectMatrixArray rectMatrixArray)
    (let outerSz = \<lparr>width = (if reverse then height (outerSize sizing) else width (outerSize sizing)),
                    height = (if reverse then width (outerSize sizing) else height (outerSize sizing))\<rparr>;
         innerSz = \<lparr>width = (if reverse then height (innerSize sizing) else width (innerSize sizing)),
                    height = (if reverse then width (innerSize sizing) else height (innerSize sizing))\<rparr>;
         marginSz = \<lparr>width = (if reverse then height (marginSize sizing) else width (marginSize sizing)),
                     height = (if reverse then width (marginSize sizing) else height (marginSize sizing))\<rparr>
     in Inr (for_r outerSz innerSz marginSz start rectMatrixArray 0 []))"

section \<open>The layout\<close>

text \<open>
  \<open>Array(n)\<close> throws a RangeError unless \<open>n\<close> is an integer from \<open>0\<close> to \<open>2^32 - 1\<close>;
  \<open>Array(rows).fill(Array(columns).fill(cell))\<close> is then a matrix of that shape.  The
  cells are the placeholder \<open>{ inner: {}, outer: {}, grid: {} }\<close>, which
  \<open>_buildRectMatrix\<close> reads and discards: only the shape matters.
\<close>

definition Array_length :: "number \<Rightarrow> error + nat" where
  "Array_length n =
     (case n of
        NaN \<Rightarrow> Inl InvalidArrayLength
      | Num q \<Rightarrow> if of_int \<lfloor>q\<rfloor> = q \<and> 0 \<le> q \<and> q \<le> 2 ^ 32 - 1
                 then Inr (nat \<lfloor>q\<rfloor>) else Inl InvalidArrayLength)"

definition Array_fill_fill :: "number \<Rightarrow> number \<Rightarrow> error + unit list list" where
  "Array_fill_fill rows columns =
     and_then (Array_length rows) (\<lambda>nr.
     and_then (Array_length columns) (\<lambda>nc.
     Inr (replicate nr (replicate nc ()))))"

definition generateLayoutMatrix :: "IMatrixGrid \<Rightarrow> IPaperLayoutSizing \<Rightarrow> error + ILayoutResult" where
  "generateLayoutMatrix g sizing =
     check (validateGrid g)
    (and_then (Array_fill_fill (row g) (column g)) (\<lambda>mainMatrix.
     and_then (buildRectMatrix mainMatrix sizing False None) (\<lambda>mainRects.
     let mainContainer = \<lparr>width = width (outerSize sizing) * column g,
                          height = height (outerSize sizing) * row g\<rparr>
     in and_then (calculateRemain (source sizing) mainContainer (innerSize sizing) (marginSize sizing))
          (\<lambda>remainer.
             case remainer of
               None \<Rightarrow> Inr \<lparr>main = mainRects, remain = None\<rparr>
             | Some rm \<Rightarrow>
                 if row (remain_grid rm) > Num 0 \<and> column (remain_grid rm) > Num 0 then
                   and_then (Array_fill_fill (row (remain_grid rm)) (column (remain_grid rm)))
                     (\<lambda>remainMatrix.
                   and_then (buildRectMatrix remainMatrix sizing True (Some (remain_start rm)))
                     (\<lambda>remainRects.
                   Inr \<lparr>main = mainRects, remain = Some remainRects\<rparr>))
                 else Inr \<lparr>main = mainRects, remain = None\<rparr>))))"

text \<open>
  \<open>Object.keys(layout)\<close>: the values under the keys of a layout, \<open>main\<close> and, when
  present, \<open>remain\<close>; \<open>calculate\<close> adds their lengths up.
\<close>

definition layout_values :: "ILayoutResult \<Rightarrow> IRectMatrixResult list list" where
  "layout_values layout =
     main layout # (case remain layout of None \<Rightarrow> [] | Some rs \<Rightarrow> [rs])"

definition calculate :: "CalculatorLayoutClass \<Rightarrow> error + ILayoutTotal" where
  "calculate this =
     (let useInline = this_useInline this;
          tgt = this_target this;
          mar = this_margin this;
          innerSz = \<lparr>width = (if useInline then width tgt else height tgt),
                     height = (if useInline then height tgt else width tgt)\<rparr>;
          outerSz = \<lparr>width = (if useInline then width tgt + Num 2 * width mar
                               else height tgt + Num 2 * height mar),
                     height = (if useInline then height tgt + Num 2 * height mar
                                else width tgt + Num 2 * width mar)\<rparr>;
          marginSz = \<lparr>width = (if useInline then width mar else height mar),
                      height = (if useInline then height mar else width mar)\<rparr>
      in and_then (if useInline then inlineCut (this_source this) tgt mar
                   else crossCut (this_source this) tgt mar) (\<lambda>g.
         check (validateGrid g)
        (let sizing = \<lparr>source = this_source this, outerSize = outerSz,
                       innerSize = innerSz, marginSize = marginSz\<rparr>
         in and_then (generateLayoutMatrix g sizing) (\<lambda>layout.
            Inr \<lparr>main = main layout, remain = remain layout,
                 total = foldl (\<lambda>t rs. t + length rs) 0 (layout_values layout)\<rparr>))))"

section \<open>Vocabulary of the properties\<close>

text \<open>
  The grid that \<open>calculate\<close> fits first and the sizing it hands to
  \<open>_generateLayoutMatrix\<close>, as functions of the instance.
\<close>

definition primary_grid :: "CalculatorLayoutClass \<Rightarrow> error + IMatrixGrid" where
  "primary_grid this =
     (if this_useInline this
      then inlineCut (this_source this) (this_target this) (this_margin this)
      else crossCut (this_source this) (this_target this) (this_margin this))"

definition sizing_of :: "CalculatorLayoutClass \<Rightarrow> IPaperLayoutSizing" where
  "sizing_of this =
     (let useInline = this_useInline this;
          tgt = this_target this;
          mar = this_margin this
      in \<lparr>source = this_source this,
          outerSize = \<lparr>width = (if useInline then width tgt + Num 2 * width mar
                                  else height tgt + Num 2 * height mar),
                        height = (if useInline then height tgt + Num 2 * height mar
                                   else width tgt + Num 2 * width mar)\<rparr>,
          innerSize = \<lparr>width = (if useInline then width tgt else height tgt),
                        height = (if useInline then height tgt else width tgt)\<rparr>,
          marginSize = \<lparr>width = (if useInline then width mar else height mar),
                         height = (if useInline then height mar else width mar)\<rparr>\<rparr>)"


text \<open>All rectangles of a layout: those of \<open>main\<close>, then those of \<open>remain\<close> if present.\<close>

definition placements :: "'a ILayoutResult_scheme \<Rightarrow> IRectMatrixResult list" where
  "placements layout = main layout @ (case remain layout of None \<Rightarrow> [] | Some rs \<Rightarrow> rs)"




text \<open>
  A placed rectangle \<open>p\<close> frames a target \<open>tgt\<close> with the margin \<open>mar\<close>: the inner
  rectangle has the size of the target and sits one margin inside the outer one, which
  is larger by two margins on each axis.  \<open>rotated\<close> exchanges width and height.
\<close>

definition rotated :: "ISquareSize \<Rightarrow> ISquareSize" where
  "rotated s = \<lparr>width = height s, height = width s\<rparr>"

definition framed :: "ISquareSize \<Rightarrow> ISquareSize \<Rightarrow> IRectMatrixResult \<Rightarrow> bool" where
  "framed tgt mar p =
     (rect_x (inner p) = rect_x (outer p) + width mar
      \<and> rect_y (inner p) = rect_y (outer p) + height mar
      \<and> rect_width (inner p) = width tgt \<and> rect_height (inner p) = height tgt
      \<and> rect_width (outer p) = width tgt + Num 2 * width mar
      \<and> rect_height (outer p) = height tgt + Num 2 * height mar)"

text \<open>
  The remainder policy in the words of the specification (section 4.2, rules 1 to 3):
  the vertical strip is packed when \<open>source.height - mainContainer.height\<close> is at
  least \<open>target.width\<close>, else the horizontal strip when
  \<open>source.width - mainContainer.width\<close> is at least \<open>target.height\<close>.  It is compared
  with \<open>calculateRemain\<close> below.
\<close>

definition calculateRemain_as_specified ::
  "ISquareSize \<Rightarrow> ISquareSize \<Rightarrow> ISquareSize \<Rightarrow> ISquareSize \<Rightarrow> error + Remainer option" where
  "calculateRemain_as_specified src mainContainer tgt mar =
     check (validateRemainXY (width src - width mainContainer) (height src - height mainContainer))
       (if height src - height mainContainer \<ge> width tgt then
          and_then (crossCut \<lparr>width = width src - width mainContainer, height = height src\<rparr> tgt mar)
            (\<lambda>g. Inr (Some \<lparr>remain_grid = g,
                             remain_start = \<lparr>coord_x = width mainContainer, coord_y = Num 0\<rparr>\<rparr>))
        else if width src - width mainContainer \<ge> height tgt then
          and_then (crossCut \<lparr>width = width src, height = height src - height mainContainer\<rparr> tgt mar)
            (\<lambda>g. Inr (Some \<lparr>remain_grid = g,
                             remain_start = \<lparr>coord_x = Num 0, coord_y = height mainContainer\<rparr>\<rparr>))
        else Inr None)"

section \<open>Worked layouts\<close>

text \<open>
  A sheet of 6 by 8 cut into targets of 1 by 1 with a margin of 1 by 2: two cells of
  3 by 5 in one row, and one rotated cell of 5 by 3 in the strip below them.
\<close>

definition sheet_6x8 :: CalculatorLayoutClass where
  "sheet_6x8 = \<lparr>this_source = \<lparr>width = Num 6, height = Num 8\<rparr>,
                 this_target = \<lparr>width = Num 1, height = Num 1\<rparr>,
                 this_margin = \<lparr>width = Num 1, height = Num 2\<rparr>,
                 this_useInline = True\<rparr>"

definition layout_6x8 :: ILayoutTotal where
  "layout_6x8 =
     \<lparr>main =
        [\<lparr>inner = \<lparr>rect_x = Num 1, rect_y = Num 2, rect_width = Num 1, rect_height = Num 1\<rparr>,
          outer = \<lparr>rect_x = Num 0, rect_y = Num 0, rect_width = Num 3, rect_height = Num 5\<rparr>,
          grid = \<lparr>pos_row = 0, pos_column = 0\<rparr>\<rparr>,
         \<lparr>inner = \<lparr>rect_x = Num 4, rect_y = Num 2, rect_width = Num 1, rect_height = Num 1\<rparr>,
          outer = \<lparr>rect_x = Num 3, rect_y = Num 0, rect_width = Num 3, rect_height = Num 5\<rparr>,
          grid = \<lparr>pos_row = 0, pos_column = 1\<rparr>\<rparr>],
      remain =
        Some [\<lparr>inner = \<lparr>rect_x = Num 2, rect_y = Num 6, rect_width = Num 1, rect_height = Num 1\<rparr>,
               outer = \<lparr>rect_x = Num 0, rect_y = Num 5, rect_width = Num 5, rect_height = Num 3\<rparr>,
               grid = \<lparr>pos_row = 0, pos_column = 0\<rparr>\<rparr>],
      total = 3\<rparr>"

text \<open>The second sheet of the documentation: 65 by 100, targets of 43 by 12, margin 1.\<close>

definition sheet_65x100 :: CalculatorLayoutClass where
  "sheet_65x100 = \<lparr>this_source = \<lparr>width = Num 65, height = Num 100\<rparr>,
                    this_target = \<lparr>width = Num 43, height = Num 12\<rparr>,
                    this_margin = \<lparr>width = Num 1, height = Num 1\<rparr>,
                    this_useInline = True\<rparr>"

text \<open>
  A sheet of 100 by 10 cut across into targets of 50 by 5: the constructor accepts it,
  and no rotated target fits.
\<close>

definition sheet_100x10 :: CalculatorLayoutClass where
  "sheet_100x10 = \<lparr>this_source = \<lparr>width = Num 100, height = Num 10\<rparr>,
                    this_target = \<lparr>width = Num 50, height = Num 5\<rparr>,
                    this_margin = \<lparr>width = Num 0, height = Num 0\<rparr>,
                    this_useInline = False\<rparr>"

text \<open>
  A sheet of 5 by 5 with the targets and margin of the first sheet: one cell of 3 by 5,
  and a strip of width 2 beside it that is wide enough for a target but not for its cell.
\<close>

definition sheet_5x5 :: CalculatorLayoutClass where
  "sheet_5x5 = \<lparr>this_source = \<lparr>width = Num 5, height = Num 5\<rparr>,
                 this_target = \<lparr>width = Num 1, height = Num 1\<rparr>,
                 this_margin = \<lparr>width = Num 1, height = Num 2\<rparr>,
                 this_useInline = True\<rparr>"

section \<open>Exceptions and loops\<close>

declare for_c.simps [simp del] for_r.simps [simp del]

lemma and_then_Inr: "and_then m f = Inr r \<longleftrightarrow> (\<exists>v. m = Inr v \<and> f v = Inr r)"
  by (cases m) auto

lemma check_Inr: "check v k = Inr r \<longleftrightarrow> v = None \<and> k = Inr r"
  by (cases v) auto

lemma and_then_Inl: "and_then m f = Inl e \<longleftrightarrow> m = Inl e \<or> (\<exists>v. m = Inr v \<and> f v = Inl e)"
  by (cases m) auto

lemma check_Inl: "check v k = Inl e \<longleftrightarrow> v = Some e \<or> (v = None \<and> k = Inl e)"
  by (cases v) auto

text \<open>The two loops of \<open>_buildRectMatrix\<close> push one rectangle for each cell, row by row.\<close>

lemma for_c_eq:
  "c \<le> length (m ! r) \<Longrightarrow>
   for_c os is ms st m r c acc = acc @ map (placeRect os is ms st r) [c..<length (m ! r)]"
proof (induction os "is" ms st m r c acc rule: for_c.induct)
  case (1 os "is" ms st m r c acc)
  show ?case
  proof (cases "c < length (m ! r)")
    case True
    then have "for_c os is ms st m r c acc
        = for_c os is ms st m r (c + 1) (acc @ [placeRect os is ms st r c])"
      by (simp add: for_c.simps [of os "is" ms st m r c])
    also have "\<dots> = (acc @ [placeRect os is ms st r c])
                      @ map (placeRect os is ms st r) [c + 1..<length (m ! r)]"
      using True by (intro "1.IH") simp_all
    finally show ?thesis using True by (simp add: upt_conv_Cons)
  next
    case False
    with "1.prems" show ?thesis by (subst for_c.simps) simp
  qed
qed

lemma for_r_eq:
  "r \<le> length m \<Longrightarrow>
   for_r os is ms st m r acc
     = acc @ concat (map (\<lambda>r. map (placeRect os is ms st r) [0..<length (m ! r)]) [r..<length m])"
proof (induction os "is" ms st m r acc rule: for_r.induct)
  case (1 os "is" ms st m r acc)
  show ?case
  proof (cases "r < length m")
    case True
    then have "for_r os is ms st m r acc
        = for_r os is ms st m (r + 1) (for_c os is ms st m r 0 acc)"
      by (simp add: for_r.simps [of os "is" ms st m r])
    also have "\<dots> = for_c os is ms st m r 0 acc
        @ concat (map (\<lambda>r. map (placeRect os is ms st r) [0..<length (m ! r)]) [r + 1..<length m])"
      using True by (intro "1.IH") simp_all
    finally show ?thesis using True by (simp add: upt_conv_Cons for_c_eq)
  next
    case False
    with "1.prems" show ?thesis by (subst for_r.simps) simp
  qed
qed


lemma set_for_r:
  "p \<in> set (for_r os is ms st m 0 []) \<Longrightarrow> \<exists>r c. p = placeRect os is ms st r c"
  by (auto simp: for_r_eq)


lemma calculate_steps:
  "calculate this =
     and_then (primary_grid this) (\<lambda>g.
       check (validateGrid g)
         (and_then (generateLayoutMatrix g (sizing_of this)) (\<lambda>layout.
            Inr \<lparr>main = main layout, remain = remain layout,
                 total = foldl (\<lambda>t rs. t + length rs) 0 (layout_values layout)\<rparr>)))"
  by (simp add: calculate_def primary_grid_def sizing_of_def Let_def)

lemma new_sheet_6x8:
  "new_CalculatorLayoutClass \<lparr>width = Num 6, height = Num 8\<rparr> \<lparr>width = Num 1, height = Num 1\<rparr>
     \<lparr>width = Num 1, height = Num 2\<rparr> True = Inr sheet_6x8"
  by code_simp

lemma calculate_sheet_6x8: "calculate sheet_6x8 = Inr layout_6x8"
  by code_simp

lemma placements_6x8:
  "placements layout_6x8 ! 0 \<in> set (main layout_6x8)"
  "remain layout_6x8 = Some [placements layout_6x8 ! 2]"
  "placements layout_6x8 ! 2 \<in> set (placements layout_6x8)"
  "length (placements layout_6x8) = 3"
  by (simp_all add: placements_def layout_6x8_def)

section \<open>The grid fitter\<close>


lemma validateDivisionByZero_Num [simp]:
  "validateDivisionByZero (Num q) = (if q = 0 then Some DivisionByZero else None)"
  by (simp add: validateDivisionByZero_def)

lemma validateGrid_Num [simp]:
  "validateGrid \<lparr>row = Num a, column = Num b\<rparr>
     = (if a \<le> 0 then Some GridRowNotPositive
        else if b \<le> 0 then Some GridColumnNotPositive else None)"
  by (simp add: validateGrid_def)

lemma inlineCut_Num:
  assumes "tw + 2 * mw \<noteq> 0" "th + 2 * mh \<noteq> 0"
  shows "inlineCut \<lparr>width = Num sw, height = Num sh\<rparr> \<lparr>width = Num tw, height = Num th\<rparr>
           \<lparr>width = Num mw, height = Num mh\<rparr>
         = Inr \<lparr>row = Num (of_int (truncate_rat (sh / (th + 2 * mh)))),
                column = Num (of_int (truncate_rat (sw / (tw + 2 * mw))))\<rparr>"
  using assms by (simp add: inlineCut_def Let_def)

lemma crossCut_Num:
  assumes "tw + 2 * mw \<noteq> 0" "th + 2 * mh \<noteq> 0"
  shows "crossCut \<lparr>width = Num sw, height = Num sh\<rparr> \<lparr>width = Num tw, height = Num th\<rparr>
           \<lparr>width = Num mw, height = Num mh\<rparr>
         = Inr \<lparr>row = Num (of_int (truncate_rat (sh / (tw + 2 * mw)))),
                column = Num (of_int (truncate_rat (sw / (th + 2 * mh))))\<rparr>"
  using assms by (simp add: crossCut_def Let_def)



section \<open>The total\<close>

text \<open>
  C3.  Where \<open>calculate\<close> returns, the total is the length of \<open>main\<close> plus the length
  of \<open>remain\<close>, an absent \<open>remain\<close> counting as 0.
\<close>

theorem total_is_main_plus_remain:
  assumes "calculate this = Inr res"
  shows "total res = length (main res) + (case remain res of None \<Rightarrow> 0 | Some rs \<Rightarrow> length rs)"
  using assms
  by (auto simp: calculate_def Let_def and_then_Inr check_Inr layout_values_def
           split: option.splits)

theorem total_is_main_plus_remain_witness:
  "calculate sheet_6x8 = Inr layout_6x8
   \<and> total layout_6x8
       = length (main layout_6x8) + (case remain layout_6x8 of None \<Rightarrow> 0 | Some rs \<Rightarrow> length rs)"
  using total_is_main_plus_remain [OF calculate_sheet_6x8] calculate_sheet_6x8 by simp

section \<open>The remainder\<close>

lemma validateRemainXY_Num [simp]:
  "validateRemainXY (Num a) (Num b)
     = (if a < 0 then Some NegativeRemainX else if b < 0 then Some NegativeRemainY else None)"
  by (simp add: validateRemainXY_def)

lemma calculateRemain_Num:
  assumes "tw + 2 * mw \<noteq> 0" "th + 2 * mh \<noteq> 0"
  shows "calculateRemain \<lparr>width = Num sw, height = Num sh\<rparr> \<lparr>width = Num cw, height = Num ch\<rparr>
           \<lparr>width = Num tw, height = Num th\<rparr> \<lparr>width = Num mw, height = Num mh\<rparr>
     = (if sw - cw < 0 then Inl NegativeRemainX
        else if sh - ch < 0 then Inl NegativeRemainY
        else if th \<le> sw - cw then
          Inr (Some \<lparr>remain_grid =
                       \<lparr>row = Num (of_int (truncate_rat (sh / (tw + 2 * mw)))),
                        column = Num (of_int (truncate_rat ((sw - cw) / (th + 2 * mh))))\<rparr>,
                     remain_start = \<lparr>coord_x = Num cw, coord_y = Num 0\<rparr>\<rparr>)
        else if tw \<le> sh - ch then
          Inr (Some \<lparr>remain_grid =
                       \<lparr>row = Num (of_int (truncate_rat ((sh - ch) / (tw + 2 * mw)))),
                        column = Num (of_int (truncate_rat (sw / (th + 2 * mh))))\<rparr>,
                     remain_start = \<lparr>coord_x = Num 0, coord_y = Num ch\<rparr>\<rparr>)
        else Inr None)"
  by (simp add: calculateRemain_def Let_def crossCut_Num [OF assms])

text \<open>
  C1, as the method has it.  For a positive target, a non-negative margin and a
  container no larger than the source, the two strip rules are tried in this order,
  the first match winning: if source.width - container.width is at least target.height,
  the vertical strip \<open>{width: source.width - container.width, height: source.height}\<close>
  is fitted with a cross grid and anchored at \<open>{x: container.width, y: 0}\<close>; otherwise,
  if source.height - container.height is at least target.width, the horizontal strip
  \<open>{width: source.width, height: source.height - container.height}\<close> is fitted with a
  cross grid and anchored at \<open>{x: 0, y: container.height}\<close>; otherwise the result is
  null.
\<close>

theorem remainder_rules:
  assumes "0 < tw" "0 < th" "0 \<le> mw" "0 \<le> mh" "cw \<le> sw" "ch \<le> sh"
  shows "(th \<le> sw - cw \<longrightarrow>
            (\<exists>g. crossCut \<lparr>width = Num (sw - cw), height = Num sh\<rparr>
                    \<lparr>width = Num tw, height = Num th\<rparr> \<lparr>width = Num mw, height = Num mh\<rparr> = Inr g
                \<and> calculateRemain \<lparr>width = Num sw, height = Num sh\<rparr> \<lparr>width = Num cw, height = Num ch\<rparr>
                    \<lparr>width = Num tw, height = Num th\<rparr> \<lparr>width = Num mw, height = Num mh\<rparr>
                  = Inr (Some \<lparr>remain_grid = g,
                               remain_start = \<lparr>coord_x = Num cw, coord_y = Num 0\<rparr>\<rparr>)))
       \<and> (\<not> th \<le> sw - cw \<and> tw \<le> sh - ch \<longrightarrow>
            (\<exists>g. crossCut \<lparr>width = Num sw, height = Num (sh - ch)\<rparr>
                    \<lparr>width = Num tw, height = Num th\<rparr> \<lparr>width = Num mw, height = Num mh\<rparr> = Inr g
                \<and> calculateRemain \<lparr>width = Num sw, height = Num sh\<rparr> \<lparr>width = Num cw, height = Num ch\<rparr>
                    \<lparr>width = Num tw, height = Num th\<rparr> \<lparr>width = Num mw, height = Num mh\<rparr>
                  = Inr (Some \<lparr>remain_grid = g,
                               remain_start = \<lparr>coord_x = Num 0, coord_y = Num ch\<rparr>\<rparr>)))
       \<and> (\<not> th \<le> sw - cw \<and> \<not> tw \<le> sh - ch \<longrightarrow>
            calculateRemain \<lparr>width = Num sw, height = Num sh\<rparr> \<lparr>width = Num cw, height = Num ch\<rparr>
              \<lparr>width = Num tw, height = Num th\<rparr> \<lparr>width = Num mw, height = Num mh\<rparr> = Inr None)"
proof -
  have nz: "tw + 2 * mw \<noteq> 0" "th + 2 * mh \<noteq> 0"
    using assms by (simp_all add: add_pos_nonneg less_imp_neq [THEN not_sym])
  show ?thesis
    using assms(5,6) by (simp add: calculateRemain_Num [OF nz] crossCut_Num [OF nz])
qed

theorem remainder_rules_witness:
  "(0::rat) < 43 \<and> (0::rat) < 12 \<and> (0::rat) \<le> 1 \<and> (45::rat) \<le> 65 \<and> (98::rat) \<le> 100
   \<and> (12::rat) \<le> 65 - 45
   \<and> calculateRemain \<lparr>width = Num 65, height = Num 100\<rparr> \<lparr>width = Num 45, height = Num 98\<rparr>
       \<lparr>width = Num 43, height = Num 12\<rparr> \<lparr>width = Num 1, height = Num 1\<rparr>
     = Inr (Some \<lparr>remain_grid = \<lparr>row = Num 2, column = Num 1\<rparr>,
                   remain_start = \<lparr>coord_x = Num 45, coord_y = Num 0\<rparr>\<rparr>)"
proof -
  have h: "(0::rat) < 43" "(0::rat) < 12" "(0::rat) \<le> 1" "(0::rat) \<le> 1" "(45::rat) \<le> 65" "(98::rat) \<le> 100"
    by simp_all
  have c: "(12::rat) \<le> 65 - 45" by simp
  from remainder_rules [OF h] c obtain g where
    g: "crossCut \<lparr>width = Num (65 - 45), height = Num 100\<rparr>
          \<lparr>width = Num 43, height = Num 12\<rparr> \<lparr>width = Num 1, height = Num 1\<rparr> = Inr g"
    and r: "calculateRemain \<lparr>width = Num 65, height = Num 100\<rparr> \<lparr>width = Num 45, height = Num 98\<rparr>
       \<lparr>width = Num 43, height = Num 12\<rparr> \<lparr>width = Num 1, height = Num 1\<rparr>
     = Inr (Some \<lparr>remain_grid = g, remain_start = \<lparr>coord_x = Num 45, coord_y = Num 0\<rparr>\<rparr>)"
    by blast
  have "crossCut \<lparr>width = Num (65 - 45), height = Num 100\<rparr>
          \<lparr>width = Num 43, height = Num 12\<rparr> \<lparr>width = Num 1, height = Num 1\<rparr>
        = Inr \<lparr>row = Num 2, column = Num 1\<rparr>"
    by code_simp
  with g have "g = \<lparr>row = Num 2, column = Num 1\<rparr>" by simp
  with r h c show ?thesis by simp
qed

text \<open>
  The specification pairs the two conditions with the opposite strips.  On the second
  sheet of the documentation, whose main grid covers 45 by 98, the method packs the
  vertical strip (two rows of one column, at x = 45), where the specified policy would
  pack the horizontal strip (no row at all, at y = 98).
\<close>

theorem remainder_rules_counterexample:
  "calculateRemain \<lparr>width = Num 65, height = Num 100\<rparr> \<lparr>width = Num 45, height = Num 98\<rparr>
     \<lparr>width = Num 43, height = Num 12\<rparr> \<lparr>width = Num 1, height = Num 1\<rparr>
   = Inr (Some \<lparr>remain_grid = \<lparr>row = Num 2, column = Num 1\<rparr>,
                 remain_start = \<lparr>coord_x = Num 45, coord_y = Num 0\<rparr>\<rparr>)
   \<and> calculateRemain_as_specified \<lparr>width = Num 65, height = Num 100\<rparr>
       \<lparr>width = Num 45, height = Num 98\<rparr> \<lparr>width = Num 43, height = Num 12\<rparr>
       \<lparr>width = Num 1, height = Num 1\<rparr>
   = Inr (Some \<lparr>remain_grid = \<lparr>row = Num 0, column = Num 4\<rparr>,
                 remain_start = \<lparr>coord_x = Num 0, coord_y = Num 98\<rparr>\<rparr>)"
  by code_simp

section \<open>A documented layout\<close>

text \<open>
  C6.  For the source 65 by 100, the target 43 by 12, the margin 1 by 1 and the inline
  orientation, the constructor accepts the input, the primary grid has 7 rows and
  1 column, and \<open>calculate\<close> returns 7 rectangles in \<open>main\<close>, 2 in \<open>remain\<close> and the
  total 9.
\<close>

theorem scenario_B:
  "new_CalculatorLayoutClass \<lparr>width = Num 65, height = Num 100\<rparr> \<lparr>width = Num 43, height = Num 12\<rparr>
     \<lparr>width = Num 1, height = Num 1\<rparr> True = Inr sheet_65x100
   \<and> primary_grid sheet_65x100 = Inr \<lparr>row = Num 7, column = Num 1\<rparr>
   \<and> (\<exists>res. calculate sheet_65x100 = Inr res
         \<and> length (main res) = 7 \<and> map_option length (remain res) = Some 2 \<and> total res = 9)"
proof -
  have "new_CalculatorLayoutClass \<lparr>width = Num 65, height = Num 100\<rparr> \<lparr>width = Num 43, height = Num 12\<rparr>
     \<lparr>width = Num 1, height = Num 1\<rparr> True = Inr sheet_65x100"
    by code_simp
  moreover have "primary_grid sheet_65x100 = Inr \<lparr>row = Num 7, column = Num 1\<rparr>"
    by code_simp
  moreover have "calculate sheet_65x100 = Inr (projr (calculate sheet_65x100))"
    by code_simp
  moreover have "length (main (projr (calculate sheet_65x100))) = 7"
    "map_option length (remain (projr (calculate sheet_65x100))) = Some 2"
    "total (projr (calculate sheet_65x100)) = 9"
    by code_simp+
  ultimately show ?thesis by blast
qed

section \<open>Validation\<close>

lemma constructor_errors:
  assumes "new_CalculatorLayoutClass src tgt mar useInline = Inl e"
  shows "e \<in> {IncorrectInputValue, TargetNotPositive, TargetTooLarge, SourceNotProvided,
              SourceNotPositive, MarginNegative, MarginTooLarge}"
  using assms
  by (auto simp: new_CalculatorLayoutClass_def check_Inl validateTarget_def validateSource_def
        validateMargin_def split: if_splits)

text \<open>
  C8.  If the target with its margins exceeds the source on an axis, or a dimension of
  the source or the target is at most 0 or not a number, or a dimension of the margin
  is negative, the constructor throws, and what it throws is one of the errors of its
  three validation methods: no instance exists on which a grid or a layout could be
  computed.
\<close>

theorem invalid_dimensions_rejected:
  assumes "width tgt + Num 2 * width mar > width src
           \<or> height tgt + Num 2 * height mar > height src
           \<or> width src \<le> Num 0 \<or> height src \<le> Num 0 \<or> isNaN (width src) \<or> isNaN (height src)
           \<or> width tgt \<le> Num 0 \<or> height tgt \<le> Num 0 \<or> isNaN (width tgt) \<or> isNaN (height tgt)
           \<or> width mar < Num 0 \<or> height mar < Num 0"
  shows "\<exists>e. new_CalculatorLayoutClass src tgt mar useInline = Inl e
            \<and> e \<in> {IncorrectInputValue, TargetNotPositive, TargetTooLarge, SourceNotProvided,
                     SourceNotPositive, MarginNegative, MarginTooLarge}"
proof -
  have "\<exists>e. new_CalculatorLayoutClass src tgt mar useInline = Inl e"
  proof (cases "validateTarget tgt src mar")
    case (Some e)
    then show ?thesis by (simp add: new_CalculatorLayoutClass_def)
  next
    case None
    note vt = this
    show ?thesis
    proof (cases "validateSource src")
      case (Some e)
      with vt show ?thesis by (simp add: new_CalculatorLayoutClass_def)
    next
      case None
      note vs = this
      from vt vs assms have "width mar < Num 0 \<or> height mar < Num 0"
        by (auto simp: validateTarget_def validateSource_def split: if_splits)
      then have "validateMargin mar src tgt = Some MarginNegative"
        by (auto simp: validateMargin_def)
      with vt vs show ?thesis by (simp add: new_CalculatorLayoutClass_def)
    qed
  qed
  then show ?thesis using constructor_errors by blast
qed

theorem invalid_dimensions_rejected_witness:
  "width \<lparr>width = Num 9, height = Num 5\<rparr> + Num 2 * width \<lparr>width = Num 1, height = Num 0\<rparr>
     > width \<lparr>width = Num 10, height = Num 10\<rparr>
   \<and> new_CalculatorLayoutClass \<lparr>width = Num 10, height = Num 10\<rparr> \<lparr>width = Num 9, height = Num 5\<rparr>
        \<lparr>width = Num 1, height = Num 0\<rparr> True = Inl TargetTooLarge"
proof -
  have h: "width \<lparr>width = Num 9, height = Num 5\<rparr> + Num 2 * width \<lparr>width = Num 1, height = Num 0\<rparr>
     > width \<lparr>width = Num 10, height = Num 10\<rparr>"
    by simp
  then obtain e where e: "new_CalculatorLayoutClass \<lparr>width = Num 10, height = Num 10\<rparr>
        \<lparr>width = Num 9, height = Num 5\<rparr> \<lparr>width = Num 1, height = Num 0\<rparr> True = Inl e"
    using invalid_dimensions_rejected [of "\<lparr>width = Num 10, height = Num 10\<rparr>"
        "\<lparr>width = Num 9, height = Num 5\<rparr>" "\<lparr>width = Num 1, height = Num 0\<rparr>" True]
    by blast
  moreover have "new_CalculatorLayoutClass \<lparr>width = Num 10, height = Num 10\<rparr>
        \<lparr>width = Num 9, height = Num 5\<rparr> \<lparr>width = Num 1, height = Num 0\<rparr> True
      \<noteq> Inl e'" if "e' \<noteq> TargetTooLarge" for e'
    using that by (simp add: new_CalculatorLayoutClass_def validateTarget_def isNaN_def)
  ultimately have "e = TargetTooLarge" by metis
  with e h show ?thesis by simp
qed

section \<open>Empty grids\<close>

lemma inlineCut_errors: "inlineCut s t m = Inl e \<Longrightarrow> e = DivisionByZero"
  by (auto simp: inlineCut_def check_Inl validateDivisionByZero_def Let_def split: if_splits)

lemma crossCut_errors: "crossCut s t m = Inl e \<Longrightarrow> e = DivisionByZero"
  by (auto simp: crossCut_def check_Inl validateDivisionByZero_def Let_def split: if_splits)

lemma Array_fill_fill_errors: "Array_fill_fill r c = Inl e \<Longrightarrow> e = InvalidArrayLength"
  by (auto simp: Array_fill_fill_def Array_length_def and_then_Inl split: number.splits if_splits)

lemma buildRectMatrix_errors:
  "buildRectMatrix m sizing rv st = Inl e \<Longrightarrow> e = RectMatrixArrayEmpty \<or> e = RectMatrixRowEmpty"
  by (auto simp: buildRectMatrix_def check_Inl validateRectMatrixArray_def Let_def split: if_splits)

lemma calculateRemain_errors:
  "calculateRemain s c t m = Inl e \<Longrightarrow> e = NegativeRemainX \<or> e = NegativeRemainY \<or> e = DivisionByZero"
  by (auto simp: calculateRemain_def check_Inl and_then_Inl validateRemainXY_def Let_def
           dest: crossCut_errors split: if_splits)

lemma validateGrid_Some:
  "validateGrid g = Some e \<Longrightarrow>
     (e = GridRowNotPositive \<or> e = GridColumnNotPositive) \<and> (row g \<le> Num 0 \<or> column g \<le> Num 0)"
  by (auto simp: validateGrid_def split: if_splits)

lemma validateGrid_None: "validateGrid g = None \<longleftrightarrow> \<not> (row g \<le> Num 0 \<or> column g \<le> Num 0)"
  by (auto simp: validateGrid_def)

lemma generateLayoutMatrix_errors:
  assumes "generateLayoutMatrix g sizing = Inl e" "validateGrid g = None"
  shows "e \<noteq> GridRowNotPositive \<and> e \<noteq> GridColumnNotPositive"
  using assms
  by (auto simp: generateLayoutMatrix_def check_Inl and_then_Inl Let_def
           dest!: Array_fill_fill_errors buildRectMatrix_errors calculateRemain_errors
           split: option.splits if_splits)

lemma buildRectMatrix_main_returns:
  assumes "validateGrid g = None" "Array_fill_fill (row g) (column g) = Inr mainMatrix"
  shows "\<exists>mainRects. buildRectMatrix mainMatrix sizing rv st = Inr mainRects"
proof -
  from assms(2) obtain nr nc where
    nr: "Array_length (row g) = Inr nr" and nc: "Array_length (column g) = Inr nc"
    and m: "mainMatrix = replicate nr (replicate nc ())"
    by (auto simp: Array_fill_fill_def and_then_Inr)
  from nr nc assms(1) have "0 < nr" "0 < nc"
    by (auto simp: Array_length_def validateGrid_None split: number.splits if_splits)
  then show ?thesis
    by (simp add: m buildRectMatrix_def validateRectMatrixArray_def Let_def)
qed

text \<open>
  C7.  \<open>calculate\<close> throws an error of \<open>_validateGrid\<close> exactly when the primary grid
  was fitted and has a row or column count of at most 0.  Where the primary grid is
  valid and its matrix is allocated, a remainder whose grid has zero rows or zero
  columns raises nothing: \<open>calculate\<close> returns the main rectangles with no \<open>remain\<close>.
\<close>

theorem empty_grid_error:
  "((calculate this = Inl GridRowNotPositive \<or> calculate this = Inl GridColumnNotPositive)
      \<longleftrightarrow> (\<exists>g. primary_grid this = Inr g \<and> (row g \<le> Num 0 \<or> column g \<le> Num 0)))
   \<and> (primary_grid this = Inr g \<and> validateGrid g = None
        \<and> Array_fill_fill (row g) (column g) = Inr mainMatrix
        \<and> calculateRemain (source (sizing_of this))
             \<lparr>width = width (outerSize (sizing_of this)) * column g,
              height = height (outerSize (sizing_of this)) * row g\<rparr>
             (innerSize (sizing_of this)) (marginSize (sizing_of this)) = Inr (Some rm)
        \<and> (row (remain_grid rm) = Num 0 \<or> column (remain_grid rm) = Num 0)
      \<longrightarrow> (\<exists>mainRects. calculate this
             = Inr \<lparr>main = mainRects, remain = None, total = length mainRects\<rparr>))"
proof (intro conjI iffI impI)
  assume "calculate this = Inl GridRowNotPositive \<or> calculate this = Inl GridColumnNotPositive"
  then obtain e where e: "calculate this = Inl e" "e = GridRowNotPositive \<or> e = GridColumnNotPositive"
    by blast
  show "\<exists>g. primary_grid this = Inr g \<and> (row g \<le> Num 0 \<or> column g \<le> Num 0)"
  proof (cases "primary_grid this")
    case (Inl e')
    then have "e' = DivisionByZero"
      by (auto simp: primary_grid_def dest: inlineCut_errors crossCut_errors split: if_splits)
    with Inl e show ?thesis by (auto simp: calculate_steps)
  next
    case (Inr g)
    show ?thesis
    proof (cases "validateGrid g")
      case None
      with Inr e generateLayoutMatrix_errors [of g "sizing_of this" e] show ?thesis
        by (auto simp: calculate_steps and_then_Inl)
    next
      case (Some e')
      from validateGrid_Some [OF this] Inr show ?thesis by blast
    qed
  qed
next
  assume "\<exists>g. primary_grid this = Inr g \<and> (row g \<le> Num 0 \<or> column g \<le> Num 0)"
  then obtain g where g: "primary_grid this = Inr g" "row g \<le> Num 0 \<or> column g \<le> Num 0"
    by blast
  then have "validateGrid g = Some GridRowNotPositive \<or> validateGrid g = Some GridColumnNotPositive"
    by (auto simp: validateGrid_def)
  with g show "calculate this = Inl GridRowNotPositive \<or> calculate this = Inl GridColumnNotPositive"
    by (auto simp: calculate_steps)
next
  assume a: "primary_grid this = Inr g \<and> validateGrid g = None
        \<and> Array_fill_fill (row g) (column g) = Inr mainMatrix
        \<and> calculateRemain (source (sizing_of this))
             \<lparr>width = width (outerSize (sizing_of this)) * column g,
              height = height (outerSize (sizing_of this)) * row g\<rparr>
             (innerSize (sizing_of this)) (marginSize (sizing_of this)) = Inr (Some rm)
        \<and> (row (remain_grid rm) = Num 0 \<or> column (remain_grid rm) = Num 0)"
  then obtain mainRects where
    mr: "buildRectMatrix mainMatrix (sizing_of this) False None = Inr mainRects"
    using buildRectMatrix_main_returns [of g mainMatrix "sizing_of this" False None] by blast
  from a have neg: "(Num 0 < row (remain_grid rm) \<and> Num 0 < column (remain_grid rm)) = False"
    by auto
  from a mr have "generateLayoutMatrix g (sizing_of this) = Inr \<lparr>main = mainRects, remain = None\<rparr>"
    by (simp add: generateLayoutMatrix_def Let_def neg)
  with a have "calculate this = Inr \<lparr>main = mainRects, remain = None, total = length mainRects\<rparr>"
    by (simp add: calculate_steps layout_values_def)
  then show "\<exists>mainRects. calculate this
             = Inr \<lparr>main = mainRects, remain = None, total = length mainRects\<rparr>" by blast
qed

theorem empty_grid_error_witness:
  "primary_grid sheet_100x10 = Inr \<lparr>row = Num 0, column = Num 20\<rparr>
   \<and> row \<lparr>row = Num 0, column = Num 20\<rparr> \<le> Num 0
   \<and> calculate sheet_100x10 = Inl GridRowNotPositive
   \<and> primary_grid sheet_5x5 = Inr \<lparr>row = Num 1, column = Num 1\<rparr>
   \<and> validateGrid \<lparr>row = Num 1, column = Num 1\<rparr> = None
   \<and> Array_fill_fill (Num 1) (Num 1) = Inr [[()]]
   \<and> calculateRemain (source (sizing_of sheet_5x5))
        \<lparr>width = width (outerSize (sizing_of sheet_5x5)) * Num 1,
         height = height (outerSize (sizing_of sheet_5x5)) * Num 1\<rparr>
        (innerSize (sizing_of sheet_5x5)) (marginSize (sizing_of sheet_5x5))
      = Inr (Some \<lparr>remain_grid = \<lparr>row = Num 1, column = Num 0\<rparr>,
                    remain_start = \<lparr>coord_x = Num 3, coord_y = Num 0\<rparr>\<rparr>)
   \<and> calculate sheet_5x5
      = Inr \<lparr>main = [\<lparr>inner = \<lparr>rect_x = Num 1, rect_y = Num 2,
                                rect_width = Num 1, rect_height = Num 1\<rparr>,
                       outer = \<lparr>rect_x = Num 0, rect_y = Num 0,
                                rect_width = Num 3, rect_height = Num 5\<rparr>,
                       grid = \<lparr>pos_row = 0, pos_column = 0\<rparr>\<rparr>],
             remain = None, total = 1\<rparr>"
proof -
  have g: "primary_grid sheet_100x10 = Inr \<lparr>row = Num 0, column = Num 20\<rparr>"
    by code_simp
  then have "\<exists>g. primary_grid sheet_100x10 = Inr g \<and> (row g \<le> Num 0 \<or> column g \<le> Num 0)"
    by simp
  with empty_grid_error [of sheet_100x10]
  have "calculate sheet_100x10 = Inl GridRowNotPositive
        \<or> calculate sheet_100x10 = Inl GridColumnNotPositive"
    by blast
  moreover have "calculate sheet_100x10 \<noteq> Inl GridColumnNotPositive"
    by code_simp
  ultimately have first: "calculate sheet_100x10 = Inl GridRowNotPositive" by simp
  have h: "primary_grid sheet_5x5 = Inr \<lparr>row = Num 1, column = Num 1\<rparr>"
    "validateGrid \<lparr>row = Num 1, column = Num 1\<rparr> = None"
    "Array_fill_fill (Num 1) (Num 1) = Inr [[()]]"
    "calculateRemain (source (sizing_of sheet_5x5))
        \<lparr>width = width (outerSize (sizing_of sheet_5x5)) * Num 1,
         height = height (outerSize (sizing_of sheet_5x5)) * Num 1\<rparr>
        (innerSize (sizing_of sheet_5x5)) (marginSize (sizing_of sheet_5x5))
      = Inr (Some \<lparr>remain_grid = \<lparr>row = Num 1, column = Num 0\<rparr>,
                    remain_start = \<lparr>coord_x = Num 3, coord_y = Num 0\<rparr>\<rparr>)"
    by code_simp+
  from empty_grid_error [of sheet_5x5 "\<lparr>row = Num 1, column = Num 1\<rparr>" "[[()]]"
      "\<lparr>remain_grid = \<lparr>row = Num 1, column = Num 0\<rparr>,
        remain_start = \<lparr>coord_x = Num 3, coord_y = Num 0\<rparr>\<rparr>"] h
  obtain mainRects where
    "calculate sheet_5x5 = Inr \<lparr>main = mainRects, remain = None, total = length mainRects\<rparr>"
    by auto
  moreover have "main (projr (calculate sheet_5x5))
      = [\<lparr>inner = \<lparr>rect_x = Num 1, rect_y = Num 2, rect_width = Num 1, rect_height = Num 1\<rparr>,
          outer = \<lparr>rect_x = Num 0, rect_y = Num 0, rect_width = Num 3, rect_height = Num 5\<rparr>,
          grid = \<lparr>pos_row = 0, pos_column = 0\<rparr>\<rparr>]"
    by code_simp
  ultimately have "calculate sheet_5x5
      = Inr \<lparr>main = [\<lparr>inner = \<lparr>rect_x = Num 1, rect_y = Num 2,
                                rect_width = Num 1, rect_height = Num 1\<rparr>,
                       outer = \<lparr>rect_x = Num 0, rect_y = Num 0,
                                rect_width = Num 3, rect_height = Num 5\<rparr>,
                       grid = \<lparr>pos_row = 0, pos_column = 0\<rparr>\<rparr>],
             remain = None, total = 1\<rparr>"
    by simp
  with g first h show ?thesis by simp
qed

section \<open>An exact fit\<close>

lemma Array_fill_fill_1: "Array_fill_fill (Num 1) (Num 1) = Inr [[()]]"
  by (simp add: Array_fill_fill_def Array_length_def)

lemma buildRectMatrix_1:
  "buildRectMatrix [[v]] \<lparr>source = s, outerSize = os, innerSize = is, marginSize = ms\<rparr> False st
     = Inr [placeRect os is ms st 0 0]"
  by (cases os; cases "is"; cases ms)
     (simp add: buildRectMatrix_def validateRectMatrixArray_def Let_def for_r.simps for_c.simps)

text \<open>
  C9.  In the inline orientation, if target.width + 2 margin.width is source.width and
  target.height + 2 margin.height is source.height, the input is accepted, the primary
  grid is 1 by 1, and \<open>calculate\<close> returns one rectangle in \<open>main\<close>, filling the source,
  and no \<open>remain\<close>.
\<close>

theorem exact_fit:
  assumes "0 < tw" "0 < th" "0 \<le> mw" "0 \<le> mh" "sw = tw + 2 * mw" "sh = th + 2 * mh"
  shows "new_CalculatorLayoutClass \<lparr>width = Num sw, height = Num sh\<rparr>
           \<lparr>width = Num tw, height = Num th\<rparr> \<lparr>width = Num mw, height = Num mh\<rparr> True
         = Inr \<lparr>this_source = \<lparr>width = Num sw, height = Num sh\<rparr>,
                this_target = \<lparr>width = Num tw, height = Num th\<rparr>,
                this_margin = \<lparr>width = Num mw, height = Num mh\<rparr>,
                this_useInline = True\<rparr>
       \<and> inlineCut \<lparr>width = Num sw, height = Num sh\<rparr>
           \<lparr>width = Num tw, height = Num th\<rparr> \<lparr>width = Num mw, height = Num mh\<rparr>
         = Inr \<lparr>row = Num 1, column = Num 1\<rparr>
       \<and> calculate \<lparr>this_source = \<lparr>width = Num sw, height = Num sh\<rparr>,
                     this_target = \<lparr>width = Num tw, height = Num th\<rparr>,
                     this_margin = \<lparr>width = Num mw, height = Num mh\<rparr>,
                     this_useInline = True\<rparr>
         = Inr \<lparr>main = [\<lparr>inner = \<lparr>rect_x = Num mw, rect_y = Num mh,
                                   rect_width = Num tw, rect_height = Num th\<rparr>,
                          outer = \<lparr>rect_x = Num 0, rect_y = Num 0,
                                   rect_width = Num sw, rect_height = Num sh\<rparr>,
                          grid = \<lparr>pos_row = 0, pos_column = 0\<rparr>\<rparr>],
                remain = None, total = 1\<rparr>"
proof -
  have pos: "0 < tw + 2 * mw" "0 < th + 2 * mh"
    using assms by (simp_all add: add_pos_nonneg)
  then have nz: "tw + 2 * mw \<noteq> 0" "th + 2 * mh \<noteq> 0" by simp_all
  have new: "new_CalculatorLayoutClass \<lparr>width = Num sw, height = Num sh\<rparr>
           \<lparr>width = Num tw, height = Num th\<rparr> \<lparr>width = Num mw, height = Num mh\<rparr> True
         = Inr \<lparr>this_source = \<lparr>width = Num sw, height = Num sh\<rparr>,
                this_target = \<lparr>width = Num tw, height = Num th\<rparr>,
                this_margin = \<lparr>width = Num mw, height = Num mh\<rparr>,
                this_useInline = True\<rparr>"
    using assms pos
    by (auto simp: new_CalculatorLayoutClass_def validateTarget_def validateSource_def
          validateMargin_def isNaN_def js_not_def)
  have cut: "inlineCut \<lparr>width = Num sw, height = Num sh\<rparr>
           \<lparr>width = Num tw, height = Num th\<rparr> \<lparr>width = Num mw, height = Num mh\<rparr>
         = Inr \<lparr>row = Num 1, column = Num 1\<rparr>"
    using nz assms(5,6) by (simp add: inlineCut_Num [OF nz] truncate_rat_def)
  have rem: "calculateRemain \<lparr>width = Num sw, height = Num sh\<rparr>
               \<lparr>width = Num (tw + 2 * mw) * Num 1, height = Num (th + 2 * mh) * Num 1\<rparr>
               \<lparr>width = Num tw, height = Num th\<rparr> \<lparr>width = Num mw, height = Num mh\<rparr> = Inr None"
    using assms by (simp add: calculateRemain_Num [OF nz])
  have "calculate \<lparr>this_source = \<lparr>width = Num sw, height = Num sh\<rparr>,
                     this_target = \<lparr>width = Num tw, height = Num th\<rparr>,
                     this_margin = \<lparr>width = Num mw, height = Num mh\<rparr>,
                     this_useInline = True\<rparr>
         = Inr \<lparr>main = [placeRect \<lparr>width = Num (tw + 2 * mw), height = Num (th + 2 * mh)\<rparr>
                          \<lparr>width = Num tw, height = Num th\<rparr> \<lparr>width = Num mw, height = Num mh\<rparr>
                          None 0 0],
                remain = None, total = 1\<rparr>"
    using rem
    by (simp add: calculate_def Let_def cut generateLayoutMatrix_def Array_fill_fill_1
          buildRectMatrix_1 layout_values_def)
  then show ?thesis using new cut assms(5,6) by (simp add: placeRect_def)
qed

theorem exact_fit_witness:
  "(0::rat) < 43 \<and> (0::rat) < 12 \<and> (0::rat) \<le> 1 \<and> (45::rat) = 43 + 2 * 1 \<and> (14::rat) = 12 + 2 * 1
   \<and> calculate \<lparr>this_source = \<lparr>width = Num 45, height = Num 14\<rparr>,
                 this_target = \<lparr>width = Num 43, height = Num 12\<rparr>,
                 this_margin = \<lparr>width = Num 1, height = Num 1\<rparr>,
                 this_useInline = True\<rparr>
     = Inr \<lparr>main = [\<lparr>inner = \<lparr>rect_x = Num 1, rect_y = Num 1,
                               rect_width = Num 43, rect_height = Num 12\<rparr>,
                      outer = \<lparr>rect_x = Num 0, rect_y = Num 0,
                               rect_width = Num 45, rect_height = Num 14\<rparr>,
                      grid = \<lparr>pos_row = 0, pos_column = 0\<rparr>\<rparr>],
            remain = None, total = 1\<rparr>"
  using exact_fit [of 43 12 1 1 45 14] by simp

section \<open>Inner and outer rectangles\<close>

lemma rotated_rotated [simp]: "rotated (rotated s) = s"
  by (simp add: rotated_def)

lemma buildRectMatrix_cells:
  assumes "buildRectMatrix m sizing rv st = Inr ps" "p \<in> set ps"
  shows "\<exists>r c. p = placeRect (if rv then rotated (outerSize sizing) else outerSize sizing)
                     (if rv then rotated (innerSize sizing) else innerSize sizing)
                     (if rv then rotated (marginSize sizing) else marginSize sizing) st r c"
proof -
  have "(if rv then rotated s else s)
          = \<lparr>width = (if rv then height s else width s), height = (if rv then width s else height s)\<rparr>"
    for s by (simp add: rotated_def)
  then have sel: "\<lparr>width = (if rv then height s else width s),
                   height = (if rv then width s else height s)\<rparr> = (if rv then rotated s else s)"
    for s by simp
  from assms have "p \<in> set (for_r (if rv then rotated (outerSize sizing) else outerSize sizing)
                     (if rv then rotated (innerSize sizing) else innerSize sizing)
                     (if rv then rotated (marginSize sizing) else marginSize sizing) st m 0 [])"
    by (simp add: buildRectMatrix_def check_Inr Let_def sel)
  then show ?thesis by (rule set_for_r)
qed

lemma framed_placeRect:
  assumes "width os = width is + Num 2 * width ms" "height os = height is + Num 2 * height ms"
  shows "framed is ms (placeRect os is ms st r c)"
  using assms by (simp add: framed_def placeRect_def)

lemma generateLayoutMatrix_cells:
  assumes "generateLayoutMatrix g sizing = Inr layout"
  shows "(\<forall>p \<in> set (main layout). \<exists>r c. p = placeRect (outerSize sizing) (innerSize sizing)
             (marginSize sizing) None r c)
       \<and> (\<forall>rs. remain layout = Some rs \<longrightarrow>
            (\<forall>p \<in> set rs. \<exists>st r c. p = placeRect (rotated (outerSize sizing))
               (rotated (innerSize sizing)) (rotated (marginSize sizing)) st r c))"
proof -
  from assms obtain mainMatrix mainRects remainer where
    mm: "Array_fill_fill (row g) (column g) = Inr mainMatrix"
    and mr: "buildRectMatrix mainMatrix sizing False None = Inr mainRects"
    and rem: "calculateRemain (source sizing)
                \<lparr>width = width (outerSize sizing) * column g,
                 height = height (outerSize sizing) * row g\<rparr>
                (innerSize sizing) (marginSize sizing) = Inr remainer"
    and fin: "(case remainer of
               None \<Rightarrow> Inr \<lparr>main = mainRects, remain = None\<rparr>
             | Some rm \<Rightarrow>
                 if Num 0 < row (remain_grid rm) \<and> Num 0 < column (remain_grid rm) then
                   and_then (Array_fill_fill (row (remain_grid rm)) (column (remain_grid rm)))
                     (\<lambda>remainMatrix.
                   and_then (buildRectMatrix remainMatrix sizing True (Some (remain_start rm)))
                     (\<lambda>remainRects.
                   Inr \<lparr>main = mainRects, remain = Some remainRects\<rparr>))
                 else Inr \<lparr>main = mainRects, remain = None\<rparr>) = Inr layout"
    by (auto simp: generateLayoutMatrix_def check_Inr and_then_Inr Let_def)
  from fin have m: "main layout = mainRects"
    by (auto simp: and_then_Inr split: option.splits if_splits)
  from fin have r: "remain layout = None \<or> (\<exists>(remainMatrix :: unit list list) st rs.
              buildRectMatrix remainMatrix sizing True st = Inr rs \<and> remain layout = Some rs)"
  proof (cases remainer)
    case None
    with fin show ?thesis by auto
  next
    case (Some rm)
    show ?thesis
    proof (cases "Num 0 < row (remain_grid rm) \<and> Num 0 < column (remain_grid rm)")
      case True
      with fin Some have "\<exists>(remainMatrix :: unit list list) rs.
          buildRectMatrix remainMatrix sizing True (Some (remain_start rm)) = Inr rs
          \<and> remain layout = Some rs"
        by (auto simp: and_then_Inr)
      then show ?thesis by blast
    next
      case False
      with fin Some show ?thesis by auto
    qed
  qed
  have "\<forall>p \<in> set (main layout). \<exists>r c. p = placeRect (outerSize sizing) (innerSize sizing)
             (marginSize sizing) None r c"
    using buildRectMatrix_cells [OF mr] m by simp
  moreover have "\<exists>st r c. p = placeRect (rotated (outerSize sizing))
               (rotated (innerSize sizing)) (rotated (marginSize sizing)) st r c"
    if "remain layout = Some rs" "p \<in> set rs" for rs p
  proof -
    from r that obtain remainMatrix :: "unit list list" and st where
      "buildRectMatrix remainMatrix sizing True st = Inr rs" by auto
    from buildRectMatrix_cells [OF this that(2)] show ?thesis by auto
  qed
  ultimately show ?thesis by blast
qed

text \<open>
  C4, as the methods have it.  Where \<open>calculate\<close> returns, every rectangle of \<open>main\<close>
  frames the target with the margin when the orientation is inline, and the rotated
  target with the rotated margin when it is cross; every rectangle of \<open>remain\<close> is
  turned once more: it frames the rotated target with the rotated margin when the
  orientation is inline, and the target with the margin when it is cross.
\<close>

theorem placement_frames:
  assumes run: "calculate this = Inr res"
  shows "(\<forall>p \<in> set (main res).
            framed (if this_useInline this then this_target this else rotated (this_target this))
                   (if this_useInline this then this_margin this else rotated (this_margin this)) p)
       \<and> (\<forall>rs. remain res = Some rs \<longrightarrow>
            (\<forall>p \<in> set rs.
               framed (if this_useInline this then rotated (this_target this) else this_target this)
                      (if this_useInline this then rotated (this_margin this) else this_margin this) p))"
proof -
  define T where "T = (if this_useInline this then this_target this else rotated (this_target this))"
  define M where "M = (if this_useInline this then this_margin this else rotated (this_margin this))"
  define Os where "Os = \<lparr>width = width T + Num 2 * width M, height = height T + Num 2 * height M\<rparr>"
  have sz: "\<lparr>width = (if this_useInline this then width t else height t),
             height = (if this_useInline this then height t else width t)\<rparr>
              = (if this_useInline this then t else rotated t)" for t
    by (simp add: rotated_def)
  have os: "\<lparr>width = (if this_useInline this
                      then width (this_target this) + Num 2 * width (this_margin this)
                      else height (this_target this) + Num 2 * height (this_margin this)),
             height = (if this_useInline this
                       then height (this_target this) + Num 2 * height (this_margin this)
                       else width (this_target this) + Num 2 * width (this_margin this))\<rparr> = Os"
    by (simp add: Os_def T_def M_def rotated_def)
  from run obtain g layout where
    gen: "generateLayoutMatrix g \<lparr>source = this_source this, outerSize = Os,
                                   innerSize = T, marginSize = M\<rparr> = Inr layout"
    and res: "main res = main layout" "remain res = remain layout"
    unfolding calculate_def Let_def sz os T_def [symmetric] M_def [symmetric]
    by (auto simp: and_then_Inr check_Inr)
  note cells = generateLayoutMatrix_cells [OF gen, simplified]
  have fm: "framed T M (placeRect Os T M st r c)" for st r c
    by (rule framed_placeRect) (simp_all add: Os_def)
  have fr: "framed (rotated T) (rotated M) (placeRect (rotated Os) (rotated T) (rotated M) st r c)"
    for st r c
    by (rule framed_placeRect) (simp_all add: Os_def rotated_def)
  have "\<forall>p \<in> set (main res). framed T M p"
  proof
    fix p assume "p \<in> set (main res)"
    with cells obtain r c where "p = placeRect Os T M None r c"
      unfolding res by blast
    then show "framed T M p" using fm by simp
  qed
  moreover have "\<forall>rs. remain res = Some rs \<longrightarrow> (\<forall>p \<in> set rs. framed (rotated T) (rotated M) p)"
  proof (intro allI impI ballI)
    fix rs p assume "remain res = Some rs" "p \<in> set rs"
    with cells obtain st r c where
      "p = placeRect (rotated Os) (rotated T) (rotated M) st r c"
      unfolding res by blast
    then show "framed (rotated T) (rotated M) p" using fr by simp
  qed
  moreover have "rotated T = (if this_useInline this then rotated (this_target this) else this_target this)"
    "rotated M = (if this_useInline this then rotated (this_margin this) else this_margin this)"
    by (simp_all add: T_def M_def)
  ultimately show ?thesis unfolding T_def M_def by simp
qed

theorem placement_frames_witness:
  "calculate sheet_6x8 = Inr layout_6x8 \<and> this_useInline sheet_6x8
   \<and> framed (this_target sheet_6x8) (this_margin sheet_6x8) (placements layout_6x8 ! 0)
   \<and> framed (rotated (this_target sheet_6x8)) (rotated (this_margin sheet_6x8))
        (placements layout_6x8 ! 2)"
  using placement_frames [OF calculate_sheet_6x8] placements_6x8(1,2) calculate_sheet_6x8
  by (simp add: sheet_6x8_def)

text \<open>
  On the sheet of 6 by 8, with the margin 1 by 2, the rectangle of \<open>remain\<close> has its
  inner x at outer x + margin.height = 2, not at outer x + margin.width = 1, and the
  outer width 5 = target.height + 2 margin.height, not target.width + 2 margin.width = 3.
\<close>

theorem placement_frames_counterexample:
  "new_CalculatorLayoutClass \<lparr>width = Num 6, height = Num 8\<rparr> \<lparr>width = Num 1, height = Num 1\<rparr>
     \<lparr>width = Num 1, height = Num 2\<rparr> True = Inr sheet_6x8
   \<and> calculate sheet_6x8 = Inr layout_6x8
   \<and> remain layout_6x8 = Some [placements layout_6x8 ! 2]
   \<and> rect_x (inner (placements layout_6x8 ! 2)) = Num 2
   \<and> rect_x (outer (placements layout_6x8 ! 2)) + width (this_margin sheet_6x8) = Num 1
   \<and> rect_width (outer (placements layout_6x8 ! 2)) = Num 5
   \<and> width (this_target sheet_6x8) + Num 2 * width (this_margin sheet_6x8) = Num 3
   \<and> \<not> framed (this_target sheet_6x8) (this_margin sheet_6x8) (placements layout_6x8 ! 2)"
  using new_sheet_6x8 calculate_sheet_6x8
  by (simp add: placements_def layout_6x8_def sheet_6x8_def framed_def)

section \<open>The shape of a layout\<close>








lemma Array_length_NaN [simp]: "Array_length NaN = Inl InvalidArrayLength"
  by (simp add: Array_length_def)






section \<open>Geometry of the grids\<close>














end
